theory Spec2Isabelle
  imports Main
begin

section \<open>Python values reaching the handlers\<close>

text \<open>
  The value of \<^verbatim>\<open>request.get_json(silent=True)\<close> is \<^verbatim>\<open>None\<close> (no body, wrong
  content type, unparsable) or a parsed JSON value. JSON \<^verbatim>\<open>null\<close> parses to
  \<^verbatim>\<open>None\<close>, so \<open>JNull\<close> also stands for the \<^verbatim>\<open>None\<close> that \<^verbatim>\<open>dict.get\<close> returns for a
  missing key. Python floats are kept abstract (type \<open>'f\<close>).
\<close>

datatype 'f json =
    JNull
  | JBool bool
  | JInt int
  | JFloat 'f
  | JStr string
  | JArr "'f json list"
  | JObj "(string \<times> 'f json) list"

text \<open>
  The functions of the Python runtime that the handlers call and that are not part of
  the repository are parameters of the model:
  \<^item> \<open>float_truth x\<close>: \<^verbatim>\<open>bool(x)\<close> for a float;
  \<^item> \<open>float_of_int n\<close>: \<^verbatim>\<open>float(n)\<close> for an int, \<open>None\<close> when it raises OverflowError;
  \<^item> \<open>str_lower s\<close>: \<^verbatim>\<open>s.lower()\<close>;
  \<^item> \<open>fromisoformat_ok s\<close>: \<^verbatim>\<open>datetime.fromisoformat(s)\<close> returns without raising.
\<close>

record 'f pylib =
  float_truth :: "'f \<Rightarrow> bool"
  float_of_int :: "int \<Rightarrow> 'f option"
  str_lower :: "string \<Rightarrow> string"
  fromisoformat_ok :: "string \<Rightarrow> bool"

text \<open>Uncaught exceptions; Flask answers them with status 500.\<close>

datatype exn = AttributeError | OverflowError | TypeError

text \<open>Truthiness, as \<^verbatim>\<open>not x\<close> and \<^verbatim>\<open>x or y\<close> test it.\<close>

fun truthy :: "'f pylib \<Rightarrow> 'f json \<Rightarrow> bool" where
  "truthy L JNull = False"
| "truthy L (JBool b) = b"
| "truthy L (JInt n) = (n \<noteq> 0)"
| "truthy L (JFloat x) = float_truth L x"
| "truthy L (JStr s) = (s \<noteq> [])"
| "truthy L (JArr xs) = (xs \<noteq> [])"
| "truthy L (JObj kvs) = (kvs \<noteq> [])"

text \<open>
  \<^verbatim>\<open>data = request.get_json(silent=True) or {}\<close> followed by the first \<^verbatim>\<open>data.get(...)\<close>:
  a falsy body gives the empty dict; a truthy body that is not a dict has no
  \<^verbatim>\<open>get\<close> attribute, and the AttributeError is not caught.
\<close>

fun get_json_or_empty :: "'f pylib \<Rightarrow> 'f json option \<Rightarrow> exn + (string \<times> 'f json) list" where
  "get_json_or_empty L None = Inr []"
| "get_json_or_empty L (Some j) =
     (if truthy L j then (case j of JObj kvs \<Rightarrow> Inr kvs | _ \<Rightarrow> Inl AttributeError)
      else Inr [])"

text \<open>\<^verbatim>\<open>data.get(key)\<close>: \<^verbatim>\<open>None\<close> for a missing key.\<close>

definition data_get :: "(string \<times> 'f json) list \<Rightarrow> string \<Rightarrow> 'f json" where
  "data_get data key = (case map_of data key of None \<Rightarrow> JNull | Some v \<Rightarrow> v)"

text \<open>
  The values for which \<^verbatim>\<open>isinstance(v, int)\<close> holds. \<^verbatim>\<open>bool\<close> is a subclass of
  \<^verbatim>\<open>int\<close> in Python: \<^verbatim>\<open>True == 1\<close>, \<^verbatim>\<open>hash(True) == hash(1)\<close>, so \<^verbatim>\<open>True\<close> finds the
  dict key \<^verbatim>\<open>1\<close>.
\<close>

datatype pyint = PInt int | PBool bool

fun int_of :: "pyint \<Rightarrow> int" where
  "int_of (PInt n) = n"
| "int_of (PBool b) = (if b then 1 else 0)"

fun isinstance_int :: "'f json \<Rightarrow> pyint option" where
  "isinstance_int (JInt n) = Some (PInt n)"
| "isinstance_int (JBool b) = Some (PBool b)"
| "isinstance_int _ = None"

text \<open>\<^verbatim>\<open>isinstance(v, (int, float))\<close> and \<^verbatim>\<open>float(v)\<close>.\<close>

fun isinstance_number :: "'f json \<Rightarrow> bool" where
  "isinstance_number (JInt n) = True"
| "isinstance_number (JBool b) = True"
| "isinstance_number (JFloat x) = True"
| "isinstance_number _ = False"

fun py_float :: "'f pylib \<Rightarrow> 'f json \<Rightarrow> exn + 'f" where
  "py_float L (JFloat x) = Inr x"
| "py_float L (JInt n) = (case float_of_int L n of None \<Rightarrow> Inl OverflowError | Some x \<Rightarrow> Inr x)"
| "py_float L (JBool b) =
     (case float_of_int L (if b then 1 else 0) of None \<Rightarrow> Inl OverflowError | Some x \<Rightarrow> Inr x)"
| "py_float L _ = Inl TypeError"

text \<open>\<^verbatim>\<open>s.replace("Z", "+00:00")\<close>: every occurrence of the one-character pattern.\<close>

definition replace_Z :: "string \<Rightarrow> string" where
  "replace_Z s = concat (map (\<lambda>c. if c = CHR ''Z'' then ''+00:00'' else [c]) s)"

section \<open>The clock\<close>

text \<open>
  \<^verbatim>\<open>datetime.utcnow()\<close> is an input of the model: a naive datetime. Python's datetime
  objects satisfy \<open>valid_datetime\<close> by construction. \<^verbatim>\<open>isoformat()\<close> of a naive datetime
  is \<^verbatim>\<open>YYYY-MM-DDTHH:MM:SS\<close>, followed by \<^verbatim>\<open>.ffffff\<close> when the microsecond is not 0.
\<close>

record datetime =
  year :: nat
  month :: nat
  day :: nat
  hour :: nat
  minute :: nat
  second :: nat
  microsecond :: nat

definition is_leap :: "nat \<Rightarrow> bool" where
  "is_leap y = (y mod 4 = 0 \<and> (y mod 100 \<noteq> 0 \<or> y mod 400 = 0))"

definition days_in_month :: "nat \<Rightarrow> nat \<Rightarrow> nat" where
  "days_in_month y m =
     (if m = 2 then (if is_leap y then 29 else 28)
      else if m = 4 \<or> m = 6 \<or> m = 9 \<or> m = 11 then 30 else 31)"

definition valid_datetime :: "datetime \<Rightarrow> bool" where
  "valid_datetime d =
     (1 \<le> year d \<and> year d \<le> 9999 \<and> 1 \<le> month d \<and> month d \<le> 12 \<and>
      1 \<le> day d \<and> day d \<le> days_in_month (year d) (month d) \<and>
      hour d < 24 \<and> minute d < 60 \<and> second d < 60 \<and> microsecond d < 1000000)"

definition digit_char :: "nat \<Rightarrow> char" where
  "digit_char n = ''0123456789'' ! (n mod 10)"

text \<open>\<open>zpad w n\<close>: the last \<open>w\<close> decimal digits of \<open>n\<close>; it is \<^verbatim>\<open>"%0wd" % n\<close> for \<open>n < 10 ^ w\<close>.\<close>

fun zpad :: "nat \<Rightarrow> nat \<Rightarrow> string" where
  "zpad 0 n = []"
| "zpad (Suc w) n = zpad w (n div 10) @ [digit_char (n mod 10)]"

definition isoformat :: "datetime \<Rightarrow> string" where
  "isoformat d =
     zpad 4 (year d) @ ''-'' @ zpad 2 (month d) @ ''-'' @ zpad 2 (day d) @ ''T'' @
     zpad 2 (hour d) @ '':'' @ zpad 2 (minute d) @ '':'' @ zpad 2 (second d) @
     (if microsecond d = 0 then [] else ''.'' @ zpad 6 (microsecond d))"

section \<open>The in-memory tables\<close>

text \<open>
  A Python dict keeps its keys in insertion order and holds each key once: an
  association list whose keys are distinct (\<open>dict_ok\<close>).
\<close>

type_synonym 'v pydict = "(int \<times> 'v) list"

definition dict_ok :: "'v pydict \<Rightarrow> bool" where
  "dict_ok d = distinct (map fst d)"

definition dict_in :: "int \<Rightarrow> 'v pydict \<Rightarrow> bool" where
  "dict_in k d = (k \<in> set (map fst d))"

definition dict_get :: "'v pydict \<Rightarrow> int \<Rightarrow> 'v option" where
  "dict_get d k = map_of d k"

text \<open>\<^verbatim>\<open>d[k] = v\<close>: an existing key keeps its position, a new key goes to the end.\<close>

fun dict_set :: "int \<Rightarrow> 'v \<Rightarrow> 'v pydict \<Rightarrow> 'v pydict" where
  "dict_set k v [] = [(k, v)]"
| "dict_set k v (p # ps) = (if fst p = k then (k, v) # ps else p # dict_set k v ps)"

text \<open>\<^verbatim>\<open>d.pop(k, None)\<close>, for its effect on the dict.\<close>

definition dict_pop :: "int \<Rightarrow> 'v pydict \<Rightarrow> 'v pydict" where
  "dict_pop k d = filter (\<lambda>p. fst p \<noteq> k) d"

definition dict_values :: "'v pydict \<Rightarrow> 'v list" where
  "dict_values d = map snd d"

record user =
  user_ident :: int
  user_name :: string

record category =
  category_ident :: int
  category_name :: string

record 'f rec =
  rec_ident :: int
  rec_user_id :: pyint
  rec_category_id :: pyint
  rec_created_at :: string
  rec_amount :: 'f

record 'f state =
  users :: "user pydict"
  categories :: "category pydict"
  records :: "'f rec pydict"
  counter_user :: int
  counter_category :: int
  counter_record :: int

definition init :: "'f state" where
  "init = \<lparr>users = [], categories = [], records = [],
           counter_user = 0, counter_category = 0, counter_record = 0\<rparr>"

datatype kind = KUser | KCategory | KRecord

fun counter :: "kind \<Rightarrow> 'f state \<Rightarrow> int" where
  "counter KUser st = counter_user st"
| "counter KCategory st = counter_category st"
| "counter KRecord st = counter_record st"

text \<open>\<^verbatim>\<open>_next_id(kind)\<close>: increments the counter of the kind and returns its new value.\<close>

fun next_id :: "kind \<Rightarrow> 'f state \<Rightarrow> int \<times> 'f state" where
  "next_id KUser st = (counter_user st + 1, st\<lparr>counter_user := counter_user st + 1\<rparr>)"
| "next_id KCategory st =
     (counter_category st + 1, st\<lparr>counter_category := counter_category st + 1\<rparr>)"
| "next_id KRecord st = (counter_record st + 1, st\<lparr>counter_record := counter_record st + 1\<rparr>)"

section \<open>Responses\<close>

text \<open>
  A handler returns a payload and a status code. The text of an error message is
  represented by the constructor naming it, with the value interpolated into it.
\<close>

datatype errmsg =
    NameRequired
  | UserNotFound pyint
  | CategoryExists
  | CategoryIdRequired
  | CategoryNotFound pyint
  | RecordNotFound int
  | UserIdRequired
  | CategoryIdFieldRequired
  | AmountRequired
  | CreatedAtInvalid
  | FilterRequired

datatype 'f payload =
    Error errmsg
  | Uncaught exn
  | StatusOk
  | IndexPage
  | UserObj user
  | CategoryObj category
  | RecordObj "'f rec"
  | UserDeleted int nat
  | CategoryDeleted pyint nat
  | RecordDeleted int
  | UserItems "user list" nat
  | CategoryItems "category list" nat
  | RecordItems "'f rec list" nat

type_synonym 'f reply = "'f payload \<times> nat"

text \<open>\<^verbatim>\<open>_error(message, status=400)\<close>.\<close>

definition error :: "errmsg \<Rightarrow> nat \<Rightarrow> 'f reply" where
  "error message status = (Error message, status)"

definition uncaught :: "exn \<Rightarrow> 'f reply" where
  "uncaught e = (Uncaught e, 500)"

section \<open>Handlers\<close>

definition health :: "'f reply" where
  "health = (StatusOk, 200)"

definition index :: "'f reply" where
  "index = (IndexPage, 200)"

subsection \<open>Users\<close>

definition get_user :: "int \<Rightarrow> 'f state \<Rightarrow> 'f reply" where
  "get_user user_id st =
     (case dict_get (users st) user_id of
        None \<Rightarrow> error (UserNotFound (PInt user_id)) 404
      | Some u \<Rightarrow> (UserObj u, 200))"

text \<open>
  \<^verbatim>\<open>to_delete = [rid for rid, r in _records.items() if r[field] == key]\<close> and the loop
  \<^verbatim>\<open>for rid in to_delete: _records.pop(rid, None)\<close>, shared by both cascading deletes.
\<close>

definition to_delete_by :: "('f rec \<Rightarrow> pyint) \<Rightarrow> int \<Rightarrow> 'f rec pydict \<Rightarrow> int list" where
  "to_delete_by field key recs = map fst (filter (\<lambda>p. int_of (field (snd p)) = key) recs)"

definition pop_all :: "int list \<Rightarrow> 'v pydict \<Rightarrow> 'v pydict" where
  "pop_all rids d = foldl (\<lambda>d rid. dict_pop rid d) d rids"

definition delete_user :: "int \<Rightarrow> 'f state \<Rightarrow> 'f reply \<times> 'f state" where
  "delete_user user_id st =
     (if \<not> dict_in user_id (users st) then (error (UserNotFound (PInt user_id)) 404, st)
      else
        let to_delete = to_delete_by rec_user_id user_id (records st);
            st1 = st\<lparr>records := pop_all to_delete (records st)\<rparr>;
            st2 = st1\<lparr>users := dict_pop user_id (users st1)\<rparr>
        in ((UserDeleted user_id (length to_delete), 200), st2))"

definition create_user :: "'f pylib \<Rightarrow> 'f json option \<Rightarrow> 'f state \<Rightarrow> 'f reply \<times> 'f state" where
  "create_user L body st =
     (case get_json_or_empty L body of
        Inl e \<Rightarrow> (uncaught e, st)
      | Inr data \<Rightarrow>
          let name = data_get data ''name'' in
          if \<not> truthy L name then (error NameRequired 400, st)
          else (case name of
                  JStr s \<Rightarrow>
                    let (user_id, st1) = next_id KUser st;
                        user = \<lparr>user_ident = user_id, user_name = s\<rparr>
                    in ((UserObj user, 201), st1\<lparr>users := dict_set user_id user (users st1)\<rparr>)
                | _ \<Rightarrow> (error NameRequired 400, st)))"

definition list_users :: "'f state \<Rightarrow> 'f reply" where
  "list_users st = (UserItems (dict_values (users st)) (length (users st)), 200)"

subsection \<open>Categories\<close>

definition list_categories :: "'f state \<Rightarrow> 'f reply" where
  "list_categories st = (CategoryItems (dict_values (categories st)) (length (categories st)), 200)"

definition create_category :: "'f pylib \<Rightarrow> 'f json option \<Rightarrow> 'f state \<Rightarrow> 'f reply \<times> 'f state" where
  "create_category L body st =
     (case get_json_or_empty L body of
        Inl e \<Rightarrow> (uncaught e, st)
      | Inr data \<Rightarrow>
          let name = data_get data ''name'' in
          if \<not> truthy L name then (error NameRequired 400, st)
          else (case name of
                  JStr s \<Rightarrow>
                    if list_ex (\<lambda>c. str_lower L (category_name c) = str_lower L s)
                         (dict_values (categories st))
                    then (error CategoryExists 409, st)
                    else
                      let (cat_id, st1) = next_id KCategory st;
                          category = \<lparr>category_ident = cat_id, category_name = s\<rparr>
                      in ((CategoryObj category, 201),
                          st1\<lparr>categories := dict_set cat_id category (categories st1)\<rparr>)
                | _ \<Rightarrow> (error NameRequired 400, st)))"

text \<open>
  \<open>arg\<close> is the value of \<^verbatim>\<open>request.args.get("id", type=int)\<close>: the query parameter
  converted by \<^verbatim>\<open>int\<close>, \<^verbatim>\<open>None\<close> when it is missing or does not convert. The body is
  read only when \<open>arg\<close> is \<^verbatim>\<open>None\<close>.
\<close>

definition delete_category ::
  "'f pylib \<Rightarrow> int option \<Rightarrow> 'f json option \<Rightarrow> 'f state \<Rightarrow> 'f reply \<times> 'f state" where
  "delete_category L arg body st =
     (case (case arg of
              Some n \<Rightarrow> Inr (JInt n)
            | None \<Rightarrow> (case get_json_or_empty L body of
                         Inl e \<Rightarrow> Inl e
                       | Inr data \<Rightarrow> Inr (data_get data ''id''))) of
        Inl e \<Rightarrow> (uncaught e, st)
      | Inr v \<Rightarrow>
          (case isinstance_int v of
             None \<Rightarrow> (error CategoryIdRequired 400, st)
           | Some cat_id \<Rightarrow>
               if \<not> dict_in (int_of cat_id) (categories st)
               then (error (CategoryNotFound cat_id) 404, st)
               else
                 let to_delete = to_delete_by rec_category_id (int_of cat_id) (records st);
                     st1 = st\<lparr>records := pop_all to_delete (records st)\<rparr>;
                     st2 = st1\<lparr>categories := dict_pop (int_of cat_id) (categories st1)\<rparr>
                 in ((CategoryDeleted cat_id (length to_delete), 200), st2)))"

subsection \<open>Records\<close>

definition get_record :: "int \<Rightarrow> 'f state \<Rightarrow> 'f reply" where
  "get_record record_id st =
     (case dict_get (records st) record_id of
        None \<Rightarrow> error (RecordNotFound record_id) 404
      | Some r \<Rightarrow> (RecordObj r, 200))"

definition delete_record :: "int \<Rightarrow> 'f state \<Rightarrow> 'f reply \<times> 'f state" where
  "delete_record record_id st =
     (if \<not> dict_in record_id (records st) then (error (RecordNotFound record_id) 404, st)
      else ((RecordDeleted record_id, 200), st\<lparr>records := dict_pop record_id (records st)\<rparr>))"

text \<open>
  The \<^verbatim>\<open>created_at\<close> branch of \<^verbatim>\<open>create_record\<close>. \<open>None\<close> is the 400 answer of the
  \<^verbatim>\<open>except Exception\<close> clause: it catches the ValueError of \<^verbatim>\<open>fromisoformat\<close> and the
  AttributeError of \<^verbatim>\<open>created_at.replace\<close> on a value that is not a string.
\<close>

fun resolve_created_at :: "'f pylib \<Rightarrow> datetime \<Rightarrow> 'f json \<Rightarrow> string option" where
  "resolve_created_at L now JNull = Some (isoformat now @ ''Z'')"
| "resolve_created_at L now (JStr s) = (if fromisoformat_ok L (replace_Z s) then Some s else None)"
| "resolve_created_at L now _ = None"

text \<open>
  \<open>now\<close> is the value of \<^verbatim>\<open>datetime.utcnow()\<close>. \<^verbatim>\<open>_next_id("record")\<close> runs before
  \<^verbatim>\<open>float(amount)\<close> is evaluated inside the dict display, so an OverflowError leaves
  the counter incremented.
\<close>

definition create_record ::
  "'f pylib \<Rightarrow> datetime \<Rightarrow> 'f json option \<Rightarrow> 'f state \<Rightarrow> 'f reply \<times> 'f state" where
  "create_record L now body st =
     (case get_json_or_empty L body of
        Inl e \<Rightarrow> (uncaught e, st)
      | Inr data \<Rightarrow>
          let user_id = data_get data ''user_id'';
              category_id = data_get data ''category_id'';
              amount = data_get data ''amount'';
              created_at = data_get data ''created_at''
          in
          (case isinstance_int user_id of
             None \<Rightarrow> (error UserIdRequired 400, st)
           | Some uid \<Rightarrow>
          (case isinstance_int category_id of
             None \<Rightarrow> (error CategoryIdFieldRequired 400, st)
           | Some cid \<Rightarrow>
          if \<not> isinstance_number amount then (error AmountRequired 400, st)
          else if \<not> dict_in (int_of uid) (users st) then (error (UserNotFound uid) 404, st)
          else if \<not> dict_in (int_of cid) (categories st)
          then (error (CategoryNotFound cid) 404, st)
          else
          (case resolve_created_at L now created_at of
             None \<Rightarrow> (error CreatedAtInvalid 400, st)
           | Some created \<Rightarrow>
               let (rec_id, st1) = next_id KRecord st in
               (case py_float L amount of
                  Inl e \<Rightarrow> (uncaught e, st1)
                | Inr a \<Rightarrow>
                    let r = \<lparr>rec_ident = rec_id, rec_user_id = uid, rec_category_id = cid,
                             rec_created_at = created, rec_amount = a\<rparr>
                    in ((RecordObj r, 201), st1\<lparr>records := dict_set rec_id r (records st1)\<rparr>))))))"

text \<open>
  \<open>user_id\<close> and \<open>category_id\<close> are the values of
  \<^verbatim>\<open>request.args.get(..., type=int)\<close>: \<^verbatim>\<open>None\<close> for a parameter that is missing or does
  not convert.
\<close>

definition list_records :: "int option \<Rightarrow> int option \<Rightarrow> 'f state \<Rightarrow> 'f reply" where
  "list_records user_id category_id st =
     (if user_id = None \<and> category_id = None then error FilterRequired 400
      else
        let items = dict_values (records st);
            items = (case user_id of
                       Some u \<Rightarrow> filter (\<lambda>r. int_of (rec_user_id r) = u) items
                     | None \<Rightarrow> items);
            items = (case category_id of
                       Some c \<Rightarrow> filter (\<lambda>r. int_of (rec_category_id r) = c) items
                     | None \<Rightarrow> items)
        in (RecordItems items (length items), 200))"

section \<open>The service as a transition system\<close>

datatype 'f request =
    Health
  | Index
  | GetUser int
  | DeleteUser int
  | CreateUser "'f json option"
  | ListUsers
  | ListCategories
  | CreateCategory "'f json option"
  | DeleteCategory "int option" "'f json option"
  | GetRecord int
  | DeleteRecord int
  | CreateRecord datetime "'f json option"
  | ListRecords "int option" "int option"

fun handle :: "'f pylib \<Rightarrow> 'f request \<Rightarrow> 'f state \<Rightarrow> 'f reply \<times> 'f state" where
  "handle L Health st = (health, st)"
| "handle L Index st = (index, st)"
| "handle L (GetUser i) st = (get_user i st, st)"
| "handle L (DeleteUser i) st = delete_user i st"
| "handle L (CreateUser b) st = create_user L b st"
| "handle L ListUsers st = (list_users st, st)"
| "handle L ListCategories st = (list_categories st, st)"
| "handle L (CreateCategory b) st = create_category L b st"
| "handle L (DeleteCategory a b) st = delete_category L a b st"
| "handle L (GetRecord i) st = (get_record i st, st)"
| "handle L (DeleteRecord i) st = delete_record i st"
| "handle L (CreateRecord now b) st = create_record L now b st"
| "handle L (ListRecords u c) st = (list_records u c st, st)"

text \<open>The state after a sequence of requests, and the replies given along the way.\<close>

fun run :: "'f pylib \<Rightarrow> 'f request list \<Rightarrow> 'f state \<Rightarrow> 'f state" where
  "run L [] st = st"
| "run L (r # rs) st = run L rs (snd (handle L r st))"

fun replies :: "'f pylib \<Rightarrow> 'f request list \<Rightarrow> 'f state \<Rightarrow> 'f reply list" where
  "replies L [] st = []"
| "replies L (r # rs) st = fst (handle L r st) # replies L rs (snd (handle L r st))"

section \<open>Predicates on states and runs\<close>

text \<open>Every table is a dict: no key occurs twice.\<close>

definition state_ok :: "'f state \<Rightarrow> bool" where
  "state_ok st = (dict_ok (users st) \<and> dict_ok (categories st) \<and> dict_ok (records st))"

fun table_keys :: "kind \<Rightarrow> 'f state \<Rightarrow> int list" where
  "table_keys KUser st = map fst (users st)"
| "table_keys KCategory st = map fst (categories st)"
| "table_keys KRecord st = map fst (records st)"

text \<open>No key of a table is above the counter of its kind.\<close>

definition ids_bounded :: "'f state \<Rightarrow> bool" where
  "ids_bounded st =
     (list_all (\<lambda>k. k \<le> counter_user st) (map fst (users st)) \<and>
      list_all (\<lambda>k. k \<le> counter_category st) (map fst (categories st)) \<and>
      list_all (\<lambda>k. k \<le> counter_record st) (map fst (records st)))"

text \<open>No two categories of the table have names that are equal after lowercasing.\<close>

definition names_unique :: "'f pylib \<Rightarrow> 'f state \<Rightarrow> bool" where
  "names_unique L st =
     distinct (map (\<lambda>p. str_lower L (category_name (snd p))) (categories st))"

definition names_nonempty :: "'f state \<Rightarrow> bool" where
  "names_nonempty st = list_all (\<lambda>p. category_name (snd p) \<noteq> []) (categories st)"

text \<open>
  The id a reply reports as minted for a kind: the id of the object returned with
  status 201 by the create handler of that kind.
\<close>

fun minted :: "kind \<Rightarrow> 'f reply \<Rightarrow> int option" where
  "minted KUser (UserObj u, code) = (if code = 201 then Some (user_ident u) else None)"
| "minted KCategory (CategoryObj c, code) = (if code = 201 then Some (category_ident c) else None)"
| "minted KRecord (RecordObj r, code) = (if code = 201 then Some (rec_ident r) else None)"
| "minted k other = None"

definition minted_ids :: "kind \<Rightarrow> 'f pylib \<Rightarrow> 'f request list \<Rightarrow> 'f state \<Rightarrow> int list" where
  "minted_ids k L rs st = List.map_filter (minted k) (replies L rs st)"

section \<open>Reading a timestamp back\<close>

text \<open>
  What the specification means by a value parseable as ISO-8601 ending in \<^verbatim>\<open>Z\<close>: the
  extended format \<^verbatim>\<open>YYYY-MM-DDTHH:MM:SS\<close>, an optional fraction of six digits, and the
  UTC designator \<^verbatim>\<open>Z\<close>, naming a valid instant. This reader is the specification's
  side of the round trip; the handlers do not call it.
\<close>

definition digit_val :: "char \<Rightarrow> nat option" where
  "digit_val c = map_of (zip ''0123456789'' [0, 1, 2, 3, 4, 5, 6, 7, 8, 9]) c"

fun parse_digits :: "nat \<Rightarrow> string \<Rightarrow> nat option" where
  "parse_digits acc [] = Some acc"
| "parse_digits acc (c # cs) =
     (case digit_val c of None \<Rightarrow> None | Some v \<Rightarrow> parse_digits (10 * acc + v) cs)"

definition parse_fraction :: "string \<Rightarrow> nat option" where
  "parse_fraction s =
     (if s = ''Z'' then Some 0
      else if length s = 8 \<and> hd s = CHR ''.'' \<and> last s = CHR ''Z''
      then parse_digits 0 (take 6 (tl s))
      else None)"

definition parse_iso8601_utc :: "string \<Rightarrow> datetime option" where
  "parse_iso8601_utc s =
     (if length s < 20 \<or> s ! 4 \<noteq> CHR ''-'' \<or> s ! 7 \<noteq> CHR ''-'' \<or> s ! 10 \<noteq> CHR ''T'' \<or>
         s ! 13 \<noteq> CHR '':'' \<or> s ! 16 \<noteq> CHR '':'' then None
      else
        (case (parse_digits 0 (take 4 s), parse_digits 0 (take 2 (drop 5 s)),
               parse_digits 0 (take 2 (drop 8 s)), parse_digits 0 (take 2 (drop 11 s)),
               parse_digits 0 (take 2 (drop 14 s)), parse_digits 0 (take 2 (drop 17 s)),
               parse_fraction (drop 19 s)) of
           (Some y, Some mo, Some d, Some h, Some mi, Some sec, Some us) \<Rightarrow>
             (let dt = \<lparr>year = y, month = mo, day = d, hour = h, minute = mi,
                        second = sec, microsecond = us\<rparr>
              in if valid_datetime dt then Some dt else None)
         | _ \<Rightarrow> None))"

section \<open>A concrete library and concrete states\<close>

text \<open>
  An instance of the library parameters, for evaluating the handlers on concrete
  requests: floats are stood in for by integers, \<^verbatim>\<open>float\<close> overflows from \<open>2 ^ 1024\<close>,
  \<^verbatim>\<open>lower\<close> acts on the ASCII letters, and \<^verbatim>\<open>fromisoformat\<close> accepts one string.
\<close>

definition ascii_lower :: "string \<Rightarrow> string" where
  "ascii_lower s =
     map (\<lambda>c. case map_of (zip ''ABCDEFGHIJKLMNOPQRSTUVWXYZ'' ''abcdefghijklmnopqrstuvwxyz'') c of
                 None \<Rightarrow> c | Some l \<Rightarrow> l) s"

definition demo_lib :: "int pylib" where
  "demo_lib = \<lparr>float_truth = (\<lambda>x. x \<noteq> 0),
               float_of_int = (\<lambda>n. if \<bar>n\<bar> < 2 ^ 1024 then Some n else None),
               str_lower = ascii_lower,
               fromisoformat_ok = (\<lambda>s. s = ''2025-10-13T10:00:00+00:00'')\<rparr>"

definition demo_now :: datetime where
  "demo_now = \<lparr>year = 2025, month = 10, day = 13, hour = 10, minute = 0, second = 7,
               microsecond = 250\<rparr>"

definition demo_requests :: "int request list" where
  "demo_requests =
     [CreateUser (Some (JObj [(''name'', JStr ''ann'')])),
      CreateUser (Some (JObj [(''name'', JStr ''bob'')])),
      CreateCategory (Some (JObj [(''name'', JStr ''Food'')])),
      CreateCategory (Some (JObj [(''name'', JStr ''Rent'')])),
      CreateRecord demo_now (Some (JObj [(''user_id'', JInt 1), (''category_id'', JInt 1),
        (''amount'', JInt 5), (''created_at'', JStr ''2025-10-13T10:00:00Z'')])),
      CreateRecord demo_now (Some (JObj [(''user_id'', JInt 2), (''category_id'', JInt 1),
        (''amount'', JInt 7), (''created_at'', JStr ''2025-10-13T10:00:00Z'')])),
      CreateRecord demo_now (Some (JObj [(''user_id'', JInt 1), (''category_id'', JInt 2),
        (''amount'', JInt 900), (''created_at'', JStr ''2025-10-13T10:00:00Z'')]))]"

definition demo_record :: "int \<Rightarrow> int \<Rightarrow> int \<Rightarrow> int \<Rightarrow> int rec" where
  "demo_record i u c a =
     \<lparr>rec_ident = i, rec_user_id = PInt u, rec_category_id = PInt c,
      rec_created_at = ''2025-10-13T10:00:00Z'', rec_amount = a\<rparr>"

definition demo_state :: "int state" where
  "demo_state =
     \<lparr>users = [(1, \<lparr>user_ident = 1, user_name = ''ann''\<rparr>),
               (2, \<lparr>user_ident = 2, user_name = ''bob''\<rparr>)],
      categories = [(1, \<lparr>category_ident = 1, category_name = ''Food''\<rparr>),
                    (2, \<lparr>category_ident = 2, category_name = ''Rent''\<rparr>)],
      records = [(1, demo_record 1 1 1 5), (2, demo_record 2 2 1 7), (3, demo_record 3 1 2 900)],
      counter_user = 2, counter_category = 2, counter_record = 3\<rparr>"

section \<open>Cascading deletes\<close>

lemma pop_all_filter: "pop_all ks d = filter (\<lambda>p. fst p \<notin> set ks) d"
  unfolding pop_all_def
proof (induction ks arbitrary: d)
  case Nil
  show ?case by simp
next
  case (Cons k ks)
  have "foldl (\<lambda>d rid. dict_pop rid d) d (k # ks) =
        foldl (\<lambda>d rid. dict_pop rid d) (dict_pop k d) ks"
    by simp
  also have "\<dots> = filter (\<lambda>p. fst p \<notin> set ks) (dict_pop k d)"
    by (rule Cons.IH)
  also have "\<dots> = filter (\<lambda>p. fst p \<notin> set (k # ks)) d"
    by (auto simp: dict_pop_def intro: filter_cong)
  finally show ?case .
qed

lemma to_delete_member:
  assumes "dict_ok d" and "p \<in> set d"
  shows "fst p \<in> set (to_delete_by f k d) \<longleftrightarrow> int_of (f (snd p)) = k"
proof
  assume "fst p \<in> set (to_delete_by f k d)"
  then obtain q where q: "q \<in> set d" "int_of (f (snd q)) = k" "fst q = fst p"
    by (auto simp: to_delete_by_def)
  from assms(1) have "inj_on fst (set d)"
    by (simp add: dict_ok_def distinct_map)
  with q(1,3) assms(2) have "q = p"
    by (auto dest: inj_onD)
  with q(2) show "int_of (f (snd p)) = k" by simp
next
  assume "int_of (f (snd p)) = k"
  with assms(2) show "fst p \<in> set (to_delete_by f k d)"
    by (force simp: to_delete_by_def)
qed

lemma cascade_filter:
  assumes "dict_ok d"
  shows "pop_all (to_delete_by f k d) d = filter (\<lambda>p. int_of (f (snd p)) \<noteq> k) d"
  unfolding pop_all_filter
  by (rule filter_cong) (simp_all add: to_delete_member [OF assms])

lemma length_to_delete:
  "length (to_delete_by f k d) = length (filter (\<lambda>p. int_of (f (snd p)) = k) d)"
  by (simp add: to_delete_by_def)

text \<open>
  Claim C1. In a state whose tables are dicts, \<open>delete_user\<close> of a user id that is in the
  users table answers 200, removes the entry of that user, removes exactly the records
  whose \<open>user_id\<close> equals the id, and reports their number as \<open>deleted_records\<close>; for an id
  that is not in the users table it answers 404 and returns the state as it was.
\<close>

theorem delete_user_cascade:
  assumes "state_ok st"
  shows "(dict_in user_id (users st) \<longrightarrow>
            delete_user user_id st =
              ((UserDeleted user_id
                  (length (filter (\<lambda>p. int_of (rec_user_id (snd p)) = user_id) (records st))), 200),
               st\<lparr>records := filter (\<lambda>p. int_of (rec_user_id (snd p)) \<noteq> user_id) (records st),
                  users := filter (\<lambda>p. fst p \<noteq> user_id) (users st)\<rparr>)) \<and>
         (\<not> dict_in user_id (users st) \<longrightarrow>
            delete_user user_id st = ((Error (UserNotFound (PInt user_id)), 404), st))"
proof -
  from assms have ok: "dict_ok (records st)"
    by (simp add: state_ok_def)
  show ?thesis
    by (simp add: delete_user_def Let_def cascade_filter [OF ok] length_to_delete
        dict_pop_def error_def)
qed

theorem delete_user_cascade_witness:
  "state_ok demo_state \<and> dict_in 1 (users demo_state) \<and>
   delete_user 1 demo_state =
     ((UserDeleted 1 2, 200),
      demo_state\<lparr>records := [(2, demo_record 2 2 1 7)],
                 users := [(2, \<lparr>user_ident = 2, user_name = ''bob''\<rparr>)]\<rparr>) \<and>
   \<not> dict_in 9 (users demo_state) \<and>
   delete_user 9 demo_state = ((Error (UserNotFound (PInt 9)), 404), demo_state)"
  using delete_user_cascade [of demo_state 1] delete_user_cascade [of demo_state 9]
  by (simp add: demo_state_def state_ok_def dict_ok_def dict_in_def demo_record_def)

section \<open>Creating records\<close>

lemma create_record_cases:
  assumes "create_record L now body st = ((p, code), st')"
  shows "(st' = st \<and> code \<noteq> 201) \<or> code = 500 \<or> code = 201"
  using assms
  by (auto simp: create_record_def Let_def error_def uncaught_def
      split: sum.splits option.splits if_splits prod.splits)

text \<open>
  Claim C2. Whenever \<open>create_record\<close> answers 400 or 404, the state it returns is the state
  it was given: no record is stored, the record counter keeps its value, and any later
  \<open>create_record\<close> behaves as it would have without the failed call.
\<close>

theorem create_record_failure_unchanged:
  assumes "create_record L now body st = ((p, code), st')"
    and "code = 400 \<or> code = 404"
  shows "st' = st \<and> counter_record st' = counter_record st \<and> records st' = records st \<and>
         create_record L now2 body2 st' = create_record L now2 body2 st"
proof -
  from create_record_cases [OF assms(1)] assms(2) have "st' = st"
    by auto
  then show ?thesis by simp
qed

theorem create_record_failure_unchanged_witness:
  "create_record demo_lib demo_now
     (Some (JObj [(''user_id'', JInt 9), (''category_id'', JInt 1), (''amount'', JInt 5)]))
     demo_state = ((Error (UserNotFound (PInt 9)), 404), demo_state) \<and>
   create_record demo_lib demo_now
     (Some (JObj [(''user_id'', JInt 1), (''category_id'', JInt 8), (''amount'', JInt 5)]))
     demo_state = ((Error (CategoryNotFound (PInt 8)), 404), demo_state) \<and>
   create_record demo_lib demo_now
     (Some (JObj [(''user_id'', JInt 1), (''category_id'', JInt 1), (''amount'', JInt 5),
                  (''created_at'', JStr ''yesterday'')]))
     demo_state = ((Error CreatedAtInvalid, 400), demo_state) \<and>
   counter_record demo_state = 3"
  using create_record_failure_unchanged
    [where L = demo_lib and now = demo_now and st = demo_state and st' = demo_state
       and body = "Some (JObj [(''user_id'', JInt 9), (''category_id'', JInt 1),
                               (''amount'', JInt 5)])"
       and p = "Error (UserNotFound (PInt 9))" and code = 404]
  by (simp add: create_record_def data_get_def Let_def dict_in_def error_def demo_state_def
      demo_lib_def replace_Z_def)

text \<open>
  The one failure of \<open>create_record\<close> that is neither 400 nor 404: an integer amount too
  large for \<^verbatim>\<open>float\<close> is answered 500 after the counter was incremented.
\<close>

lemma create_record_overflow:
  "create_record demo_lib demo_now
     (Some (JObj [(''user_id'', JInt 1), (''category_id'', JInt 1), (''amount'', JInt (2 ^ 1024))]))
     demo_state = ((Uncaught OverflowError, 500), demo_state\<lparr>counter_record := 4\<rparr>)"
  by (simp add: create_record_def data_get_def Let_def dict_in_def uncaught_def demo_state_def
      demo_lib_def)

section \<open>Deleting one record\<close>

lemma dict_get_pop_other: "k \<noteq> j \<Longrightarrow> dict_get (dict_pop j d) k = dict_get d k"
  by (induction d) (auto simp: dict_get_def dict_pop_def)

lemma dict_in_pop: "dict_in k (dict_pop j d) \<longleftrightarrow> k \<noteq> j \<and> dict_in k d"
  by (auto simp: dict_in_def dict_pop_def)

text \<open>
  Claim C10. \<open>delete_record\<close> of an id that is in the records table answers 200 and removes
  the entry of that id only: the entries of all other ids stay, in their order, and the
  users, the categories and the three counters are as before.
\<close>

theorem delete_record_frame:
  assumes "dict_in record_id (records st)"
  shows "delete_record record_id st =
           ((RecordDeleted record_id, 200),
            st\<lparr>records := filter (\<lambda>p. fst p \<noteq> record_id) (records st)\<rparr>) \<and>
         users (snd (delete_record record_id st)) = users st \<and>
         categories (snd (delete_record record_id st)) = categories st \<and>
         counter_user (snd (delete_record record_id st)) = counter_user st \<and>
         counter_category (snd (delete_record record_id st)) = counter_category st \<and>
         counter_record (snd (delete_record record_id st)) = counter_record st \<and>
         \<not> dict_in record_id (records (snd (delete_record record_id st))) \<and>
         (\<forall>k. k \<noteq> record_id \<longrightarrow>
            dict_get (records (snd (delete_record record_id st))) k = dict_get (records st) k)"
proof -
  have "delete_record record_id st =
          ((RecordDeleted record_id, 200), st\<lparr>records := dict_pop record_id (records st)\<rparr>)"
    using assms by (simp add: delete_record_def)
  then show ?thesis
    by (simp add: dict_get_pop_other dict_in_pop) (simp add: dict_pop_def)
qed

theorem delete_record_frame_witness:
  "dict_in 2 (records demo_state) \<and>
   delete_record 2 demo_state =
     ((RecordDeleted 2, 200),
      demo_state\<lparr>records := [(1, demo_record 1 1 1 5), (3, demo_record 3 1 2 900)]\<rparr>)"
  using delete_record_frame [of 2 demo_state]
  by (simp add: demo_state_def dict_in_def)

section \<open>Listing records\<close>

text \<open>
  Claim C5. \<open>list_records\<close> with neither filter answers 400. With at least one filter it
  answers 200 with the records of the table, in the table's order, that match every
  filter given, and with \<open>total\<close> the number of the items returned.
\<close>

theorem list_records_filters:
  "list_records None None st = ((Error FilterRequired), 400) \<and>
   (user_id \<noteq> None \<or> category_id \<noteq> None \<longrightarrow>
      list_records user_id category_id st =
        (RecordItems
           (filter (\<lambda>r. (case user_id of None \<Rightarrow> True | Some u \<Rightarrow> int_of (rec_user_id r) = u) \<and>
                        (case category_id of None \<Rightarrow> True
                         | Some c \<Rightarrow> int_of (rec_category_id r) = c))
              (map snd (records st)))
           (length
             (filter (\<lambda>r. (case user_id of None \<Rightarrow> True | Some u \<Rightarrow> int_of (rec_user_id r) = u) \<and>
                          (case category_id of None \<Rightarrow> True
                           | Some c \<Rightarrow> int_of (rec_category_id r) = c))
                (map snd (records st)))), 200))"
  by (cases user_id; cases category_id)
     (simp_all add: list_records_def error_def dict_values_def Let_def conj_commute)

theorem list_records_filters_witness:
  "list_records None None demo_state = ((Error FilterRequired), 400) \<and>
   list_records (Some 1) (Some 2) demo_state = (RecordItems [demo_record 3 1 2 900] 1, 200) \<and>
   list_records (Some 1) None demo_state =
     (RecordItems [demo_record 1 1 1 5, demo_record 3 1 2 900] 2, 200)"
  using list_records_filters [of demo_state "Some 1" "Some 2"]
    list_records_filters [of demo_state "Some 1" None]
  by (simp add: demo_state_def demo_record_def)

section \<open>Booleans where integers are expected\<close>

text \<open>
  Claim C9. The JSON booleans pass the integer checks. In a state that has user 1 and
  category 1, \<open>create_record\<close> with \<open>user_id\<close> and \<open>category_id\<close> equal to \<^verbatim>\<open>true\<close> answers 201
  with a record of that user and category, \<^verbatim>\<open>true\<close> counting as the id 1;
  \<open>delete_category\<close> with the body \<^verbatim>\<open>{"id": true}\<close> deletes category 1, and with
  \<^verbatim>\<open>{"id": false}\<close> it does not answer the 400 of a missing integer id.
\<close>

theorem bool_accepted_as_int:
  assumes "dict_in 1 (users st)" and "dict_in 1 (categories st)" and "float_of_int L 5 = Some a"
  shows "fst (create_record L now
                (Some (JObj [(''user_id'', JBool True), (''category_id'', JBool True),
                             (''amount'', JInt 5)])) st) =
           (RecordObj \<lparr>rec_ident = counter_record st + 1, rec_user_id = PBool True,
                       rec_category_id = PBool True, rec_created_at = isoformat now @ ''Z'',
                       rec_amount = a\<rparr>, 201) \<and>
         int_of (PBool True) = 1 \<and>
         fst (delete_category L None (Some (JObj [(''id'', JBool True)])) st) =
           (CategoryDeleted (PBool True)
              (length (filter (\<lambda>p. int_of (rec_category_id (snd p)) = 1) (records st))), 200) \<and>
         \<not> dict_in 1 (categories (snd (delete_category L None (Some (JObj [(''id'', JBool True)])) st))) \<and>
         fst (delete_category L None (Some (JObj [(''id'', JBool False)])) st) \<noteq>
           (Error CategoryIdRequired, 400)"
  using assms
  by (simp add: create_record_def delete_category_def data_get_def Let_def dict_in_pop
      to_delete_by_def error_def)

theorem bool_accepted_as_int_witness:
  "dict_in 1 (users demo_state) \<and> dict_in 1 (categories demo_state) \<and>
   float_of_int demo_lib 5 = Some 5 \<and>
   fst (create_record demo_lib demo_now
          (Some (JObj [(''user_id'', JBool True), (''category_id'', JBool True),
                       (''amount'', JInt 5)])) demo_state) =
     (RecordObj \<lparr>rec_ident = 4, rec_user_id = PBool True, rec_category_id = PBool True,
                 rec_created_at = isoformat demo_now @ ''Z'', rec_amount = 5\<rparr>, 201) \<and>
   fst (delete_category demo_lib None (Some (JObj [(''id'', JBool True)])) demo_state) =
     (CategoryDeleted (PBool True) 2, 200)"
  using bool_accepted_as_int [of demo_state demo_lib 5 demo_now]
  by (simp add: demo_state_def demo_lib_def dict_in_def demo_record_def)

section \<open>Deleting a category\<close>

text \<open>
  What \<open>delete_category\<close> does by design: a query parameter that converts to an integer
  decides the id and the body is not read; the cascade removes exactly the records of the
  category.
\<close>

lemma delete_category_query_first:
  "delete_category L (Some n) body st = delete_category L (Some n) None st"
  by (simp add: delete_category_def)

lemma delete_category_cascade:
  assumes "state_ok st" and "dict_in n (categories st)"
  shows "delete_category L (Some n) body st =
           ((CategoryDeleted (PInt n)
               (length (filter (\<lambda>p. int_of (rec_category_id (snd p)) = n) (records st))), 200),
            st\<lparr>records := filter (\<lambda>p. int_of (rec_category_id (snd p)) \<noteq> n) (records st),
               categories := filter (\<lambda>p. fst p \<noteq> n) (categories st)\<rparr>)"
proof -
  from assms(1) have ok: "dict_ok (records st)"
    by (simp add: state_ok_def)
  show ?thesis
    using assms(2)
    by (simp add: delete_category_def Let_def cascade_filter [OF ok] length_to_delete
        dict_pop_def)
qed

text \<open>
  Claim C7, evaluated where the code leaves it. With no query parameter and the body
  \<^verbatim>\<open>{"id": true}\<close>, which supplies no integer, \<open>delete_category\<close> answers 200 and deletes
  category 1 with its two records; with the body \<^verbatim>\<open>[1]\<close> it answers 500.
\<close>

theorem delete_category_bool_id:
  "delete_category demo_lib None (Some (JObj [(''id'', JBool True)])) demo_state =
     ((CategoryDeleted (PBool True) 2, 200),
      demo_state\<lparr>records := [(3, demo_record 3 1 2 900)],
                 categories := [(2, \<lparr>category_ident = 2, category_name = ''Rent''\<rparr>)]\<rparr>) \<and>
   delete_category demo_lib None (Some (JArr [JInt 1])) demo_state =
     ((Uncaught AttributeError, 500), demo_state)"
  by (simp add: delete_category_def demo_state_def demo_record_def data_get_def Let_def
      dict_in_def to_delete_by_def pop_all_def dict_pop_def uncaught_def)

section \<open>Effects of the handlers on the tables and counters\<close>

lemma keys_dict_set: "fst ` set (dict_set k v d) = insert k (fst ` set d)"
  by (induction d) auto

lemma dict_set_fresh: "k \<notin> set (map fst d) \<Longrightarrow> dict_set k v d = d @ [(k, v)]"
  by (induction d) auto

lemma distinct_dict_set: "distinct (map fst d) \<Longrightarrow> distinct (map fst (dict_set k v d))"
proof (induction d)
  case Nil
  show ?case by simp
next
  case (Cons p d)
  have "fst p \<noteq> k \<Longrightarrow> fst p \<notin> fst ` set d \<Longrightarrow> fst p \<notin> fst ` set (dict_set k v d)"
    by (simp add: keys_dict_set)
  with Cons show ?case by auto
qed

lemma dict_ok_set: "dict_ok d \<Longrightarrow> dict_ok (dict_set k v d)"
  by (simp add: dict_ok_def distinct_dict_set)

lemma dict_ok_filter: "dict_ok d \<Longrightarrow> dict_ok (filter Q d)"
  by (simp add: dict_ok_def distinct_map_filter)

lemma dict_ok_pop: "dict_ok d \<Longrightarrow> dict_ok (dict_pop k d)"
  by (simp add: dict_pop_def dict_ok_filter)

lemma dict_ok_pop_all: "dict_ok d \<Longrightarrow> dict_ok (pop_all ks d)"
  by (simp add: pop_all_filter dict_ok_filter)

lemma keys_pop: "set (map fst (dict_pop k d)) \<subseteq> set (map fst d)"
  by (auto simp: dict_pop_def)

lemma keys_pop_all: "set (map fst (pop_all ks d)) \<subseteq> set (map fst d)"
  by (auto simp: pop_all_filter)

lemma bounded_set:
  "list_all (\<lambda>k. k \<le> c) (map fst d) \<Longrightarrow> list_all (\<lambda>k. k \<le> c + 1) (map fst (dict_set (c + 1) v d))"
proof -
  assume "list_all (\<lambda>k. k \<le> c) (map fst d)"
  then have "\<forall>k \<in> fst ` set d. k \<le> c + 1"
    by (fastforce simp: list_all_iff)
  then have "\<forall>k \<in> fst ` set (dict_set (c + 1) v d). k \<le> c + 1"
    by (simp add: keys_dict_set)
  then show ?thesis
    by (simp add: list_all_iff)
qed

lemma bounded_mono:
  "list_all (\<lambda>k. k \<le> c) (map fst d) \<Longrightarrow> set (map fst d') \<subseteq> set (map fst d) \<Longrightarrow> c \<le> c' \<Longrightarrow>
   list_all (\<lambda>k. k \<le> (c'::int)) (map fst d')"
  by (fastforce simp: list_all_iff)

lemma create_user_effect:
  assumes "create_user L body st = (rep, st')"
  shows "(st' = st \<and> (\<forall>k. minted k rep = None)) \<or>
         (\<exists>u. rep = (UserObj u, 201) \<and> user_ident u = counter_user st + 1 \<and>
              st' = st\<lparr>counter_user := counter_user st + 1,
                        users := dict_set (counter_user st + 1) u (users st)\<rparr>)"
  using assms
  by (auto simp: create_user_def Let_def error_def uncaught_def
      split: sum.splits json.splits if_splits)

lemma create_category_effect:
  assumes "create_category L body st = (rep, st')"
  shows "(st' = st \<and> (\<forall>k. minted k rep = None)) \<or>
         (\<exists>c. rep = (CategoryObj c, 201) \<and> category_ident c = counter_category st + 1 \<and>
              \<not> list_ex (\<lambda>c'. str_lower L (category_name c') = str_lower L (category_name c))
                  (dict_values (categories st)) \<and> category_name c \<noteq> [] \<and>
              st' = st\<lparr>counter_category := counter_category st + 1,
                        categories := dict_set (counter_category st + 1) c (categories st)\<rparr>)"
  using assms
  by (auto simp: create_category_def Let_def error_def uncaught_def
      split: sum.splits json.splits if_splits)

lemma create_record_effect:
  assumes "create_record L now body st = (rep, st')"
  shows "(st' = st \<and> (\<forall>k. minted k rep = None)) \<or>
         (st' = st\<lparr>counter_record := counter_record st + 1\<rparr> \<and> (\<forall>k. minted k rep = None)) \<or>
         (\<exists>r. rep = (RecordObj r, 201) \<and> rec_ident r = counter_record st + 1 \<and>
              st' = st\<lparr>counter_record := counter_record st + 1,
                        records := dict_set (counter_record st + 1) r (records st)\<rparr>)"
  using assms
  by (auto simp: create_record_def Let_def error_def uncaught_def
      split: sum.splits option.splits if_splits)

lemma filter_self: "\<exists>Q. xs = filter Q xs"
  by (rule exI [of _ "\<lambda>_. True"]) simp

lemma delete_user_effect:
  assumes "delete_user i st = (rep, st')"
  shows "(\<forall>k. minted k rep = None) \<and> counter_user st' = counter_user st \<and>
         counter_category st' = counter_category st \<and> counter_record st' = counter_record st \<and>
         categories st' = categories st \<and> (\<exists>Q. users st' = filter Q (users st)) \<and>
         (\<exists>Q. records st' = filter Q (records st))"
proof (cases "dict_in i (users st)")
  case True
  with assms show ?thesis
    by (auto simp: delete_user_def Let_def pop_all_filter dict_pop_def)
next
  case False
  with assms have "st' = st" "rep = (Error (UserNotFound (PInt i)), 404)"
    by (auto simp: delete_user_def error_def)
  then show ?thesis
    by (simp add: filter_self)
qed

lemma delete_category_effect:
  assumes "delete_category L arg body st = (rep, st')"
  shows "(\<forall>k. minted k rep = None) \<and> counter_user st' = counter_user st \<and>
         counter_category st' = counter_category st \<and> counter_record st' = counter_record st \<and>
         users st' = users st \<and> (\<exists>Q. categories st' = filter Q (categories st)) \<and>
         (\<exists>Q. records st' = filter Q (records st))"
  using assms
  by (auto simp: delete_category_def Let_def pop_all_filter dict_pop_def error_def uncaught_def
      filter_self split: sum.splits option.splits if_splits)

lemma delete_record_effect:
  assumes "delete_record i st = (rep, st')"
  shows "(\<forall>k. minted k rep = None) \<and> counter_user st' = counter_user st \<and>
         counter_category st' = counter_category st \<and> counter_record st' = counter_record st \<and>
         users st' = users st \<and> categories st' = categories st \<and>
         (\<exists>Q. records st' = filter Q (records st))"
  using assms
  by (auto simp: delete_record_def dict_pop_def error_def filter_self split: if_splits)

lemma minted_not_created: "code \<noteq> 201 \<Longrightarrow> minted k (p, code) = None"
  by (cases k; cases p) simp_all

lemma read_only_effect:
  "\<forall>k. minted k health = None" "\<forall>k. minted k index = None"
  "\<forall>k. minted k (get_user i st) = None" "\<forall>k. minted k (list_users st) = None"
  "\<forall>k. minted k (list_categories st) = None" "\<forall>k. minted k (get_record i st) = None"
  "\<forall>k. minted k (list_records u c st) = None"
  by (simp_all add: health_def index_def get_user_def list_users_def list_categories_def
      get_record_def list_records_def error_def Let_def minted_not_created
      split: option.splits)

lemma handle_effect:
  assumes "handle L r st = (rep, st')"
  shows "((\<forall>k. minted k rep = None) \<and> counter_user st' = counter_user st \<and>
          counter_category st' = counter_category st \<and> counter_record st' = counter_record st \<and>
          (\<exists>Q. users st' = filter Q (users st)) \<and>
          (\<exists>Q. categories st' = filter Q (categories st)) \<and>
          (\<exists>Q. records st' = filter Q (records st))) \<or>
         (\<exists>u. rep = (UserObj u, 201) \<and> user_ident u = counter_user st + 1 \<and>
              st' = st\<lparr>counter_user := counter_user st + 1,
                        users := dict_set (counter_user st + 1) u (users st)\<rparr>) \<or>
         (\<exists>c. rep = (CategoryObj c, 201) \<and> category_ident c = counter_category st + 1 \<and>
              \<not> list_ex (\<lambda>c'. str_lower L (category_name c') = str_lower L (category_name c))
                  (dict_values (categories st)) \<and> category_name c \<noteq> [] \<and>
              st' = st\<lparr>counter_category := counter_category st + 1,
                        categories := dict_set (counter_category st + 1) c (categories st)\<rparr>) \<or>
         (st' = st\<lparr>counter_record := counter_record st + 1\<rparr> \<and> (\<forall>k. minted k rep = None)) \<or>
         (\<exists>r. rep = (RecordObj r, 201) \<and> rec_ident r = counter_record st + 1 \<and>
              st' = st\<lparr>counter_record := counter_record st + 1,
                        records := dict_set (counter_record st + 1) r (records st)\<rparr>)"
proof (cases r)
  case (DeleteUser i)
  with assms delete_user_effect [of i st rep st'] show ?thesis
    by (simp add: filter_self)
next
  case (CreateUser b)
  with assms create_user_effect [of L b st rep st'] show ?thesis
    by (auto simp: filter_self)
next
  case (CreateCategory b)
  with assms create_category_effect [of L b st rep st'] show ?thesis
    by (auto simp: filter_self)
next
  case (DeleteCategory a b)
  with assms delete_category_effect [of L a b st rep st'] show ?thesis
    by (simp add: filter_self)
next
  case (DeleteRecord i)
  with assms delete_record_effect [of i st rep st'] show ?thesis
    by (simp add: filter_self)
next
  case (CreateRecord now b)
  with assms create_record_effect [of L now b st rep st'] show ?thesis
    by (auto simp: filter_self)
qed (use assms in \<open>auto simp: filter_self read_only_effect\<close>)

lemma mem_dict_set: "(a, b) \<in> set (dict_set k v d) \<Longrightarrow> a = k \<or> a \<in> fst ` set d"
  using keys_dict_set [of k v d] by force

lemma handle_counter_mono:
  assumes "handle L r st = (rep, st')"
  shows "counter k st \<le> counter k st'"
  using handle_effect [OF assms] by (cases k) auto

lemma handle_minted:
  assumes "handle L r st = (rep, st')" and "minted k rep = Some i"
  shows "i = counter k st + 1 \<and> counter k st' = i"
  using handle_effect [OF assms(1)] assms(2) by (cases k) auto

lemma handle_keys:
  assumes "handle L r st = (rep, st')"
  shows "set (table_keys k st') \<subseteq> set (table_keys k st) \<union> set_option (minted k rep)"
  using handle_effect [OF assms]
  by (cases k) (auto dest!: mem_dict_set)

lemma handle_state_ok:
  assumes "handle L r st = (rep, st')" and "state_ok st"
  shows "state_ok st'"
  using handle_effect [OF assms(1)] assms(2)
  by (auto simp: state_ok_def dict_ok_filter dict_ok_set)

lemma handle_ids_bounded:
  assumes "handle L r st = (rep, st')" and "ids_bounded st"
  shows "ids_bounded st'"
  using handle_effect [OF assms(1)] assms(2)
  by (elim disjE exE conjE) (force simp: ids_bounded_def list_all_iff dest!: mem_dict_set)+

lemma set_dict_set_subset: "set (dict_set k v d) \<subseteq> insert (k, v) (set d)"
  by (induction d) auto

lemma distinct_map_dict_set:
  assumes "distinct (map g d)" and "g (k, v) \<notin> g ` set d"
  shows "distinct (map g (dict_set k v d))"
  using assms
proof (induction d)
  case Nil
  show ?case by simp
next
  case (Cons p ps)
  show ?case
  proof (cases "fst p = k")
    case True
    with Cons.prems show ?thesis by simp
  next
    case False
    have "g p \<notin> g ` set (dict_set k v ps)"
    proof
      assume "g p \<in> g ` set (dict_set k v ps)"
      then obtain q where q: "q \<in> set (dict_set k v ps)" "g p = g q"
        by auto
      with set_dict_set_subset [of k v ps] have "q = (k, v) \<or> q \<in> set ps"
        by auto
      with q(2) Cons.prems show False
        by auto
    qed
    with False Cons show ?thesis by simp
  qed
qed

lemma handle_names_unique:
  assumes "handle L r st = (rep, st')" and "names_unique L st"
  shows "names_unique L st'"
  using handle_effect [OF assms(1)] assms(2)
  by (elim disjE exE conjE)
     (auto simp: names_unique_def distinct_map_filter list_ex_iff dict_values_def
       intro!: distinct_map_dict_set)

lemma handle_names_nonempty:
  assumes "handle L r st = (rep, st')" and "names_nonempty st"
  shows "names_nonempty st'"
  using handle_effect [OF assms(1)] assms(2) set_dict_set_subset
  by (elim disjE exE conjE) (fastforce simp: names_nonempty_def list_all_iff)+

lemma init_invariants: "state_ok init" "ids_bounded init" "names_unique L init" "names_nonempty init"
  by (simp_all add: init_def state_ok_def dict_ok_def ids_bounded_def names_unique_def
      names_nonempty_def)

lemma run_invariants:
  "(state_ok st \<longrightarrow> state_ok (run L rs st)) \<and> (ids_bounded st \<longrightarrow> ids_bounded (run L rs st)) \<and>
   (names_unique L st \<longrightarrow> names_unique L (run L rs st)) \<and>
   (names_nonempty st \<longrightarrow> names_nonempty (run L rs st))"
proof (induction rs arbitrary: st)
  case Nil
  show ?case by simp
next
  case (Cons r rs)
  obtain rep st' where step: "handle L r st = (rep, st')"
    by (cases "handle L r st")
  from Cons.IH [of st'] step show ?case
    by (auto dest: handle_state_ok handle_ids_bounded handle_names_unique handle_names_nonempty)
qed

lemma minted_ids_Cons:
  "minted_ids k L (r # rs) st =
     (case minted k (fst (handle L r st)) of
        None \<Rightarrow> minted_ids k L rs (snd (handle L r st))
      | Some i \<Rightarrow> i # minted_ids k L rs (snd (handle L r st)))"
  unfolding minted_ids_def by (simp add: map_filter_simps)

lemma minted_ids_increasing:
  "sorted_wrt (<) (minted_ids k L rs st) \<and>
   (\<forall>i \<in> set (minted_ids k L rs st). counter k st < i \<and> i \<le> counter k (run L rs st)) \<and>
   counter k st \<le> counter k (run L rs st)"
proof (induction rs arbitrary: st)
  case Nil
  show ?case by (simp add: minted_ids_def)
next
  case (Cons r rs)
  obtain rep st' where step: "handle L r st = (rep, st')"
    by (cases "handle L r st")
  note mono = handle_counter_mono [OF step, of k]
  note IH = Cons.IH [of st']
  show ?case
  proof (cases "minted k rep")
    case None
    with step IH mono show ?thesis
      by (auto simp: minted_ids_Cons)
  next
    case (Some i)
    from handle_minted [OF step Some] have i: "i = counter k st + 1" "counter k st' = i"
      by simp_all
    with step Some IH show ?thesis
      by (auto simp: minted_ids_Cons)
  qed
qed

lemma run_keys:
  "set (table_keys k (run L rs st)) \<subseteq> set (table_keys k st) \<union> set (minted_ids k L rs st)"
proof (induction rs arbitrary: st)
  case Nil
  show ?case by simp
next
  case (Cons r rs)
  obtain rep st' where step: "handle L r st = (rep, st')"
    by (cases "handle L r st")
  from Cons.IH [of st'] handle_keys [OF step, of k] step show ?case
    by (cases "minted k rep") (auto simp: minted_ids_Cons)
qed

lemma ids_bounded_keys: "ids_bounded st \<Longrightarrow> j \<in> set (table_keys k st) \<Longrightarrow> j \<le> counter k st"
  by (cases k) (auto simp: ids_bounded_def list_all_iff)

lemma state_ok_keys: "state_ok st \<Longrightarrow> distinct (table_keys k st)"
  by (cases k) (simp_all add: state_ok_def dict_ok_def)

lemma demo_delete_user:
  "delete_user 2 demo_state =
     ((UserDeleted 2 1, 200),
      demo_state\<lparr>records := [(1, demo_record 1 1 1 5), (3, demo_record 3 1 2 900)],
                 users := [(1, \<lparr>user_ident = 1, user_name = ''ann''\<rparr>)]\<rparr>)"
  by (simp add: delete_user_def demo_state_def demo_record_def Let_def dict_in_def
      to_delete_by_def pop_all_def dict_pop_def)

lemma run_append: "run L (rs @ rs') st = run L rs' (run L rs st)"
  by (induction rs arbitrary: st) simp_all

lemma demo_run: "run demo_lib demo_requests init = demo_state"
  by (simp add: demo_requests_def init_def demo_state_def demo_lib_def create_user_def
      create_category_def create_record_def data_get_def Let_def dict_in_def replace_Z_def
      ascii_lower_def demo_record_def dict_values_def)

lemma demo_minted: "minted_ids KUser demo_lib demo_requests init = [1, 2]"
  by (simp add: minted_ids_def demo_requests_def init_def demo_lib_def create_user_def
        create_category_def create_record_def data_get_def Let_def dict_in_def
        replace_Z_def ascii_lower_def dict_values_def map_filter_simps error_def)

lemma replies_append: "replies L (rs @ rs') st = replies L rs st @ replies L rs' (run L rs st)"
  by (induction rs arbitrary: st) simp_all

lemma minted_ids_append:
  "minted_ids k L (rs @ rs') st = minted_ids k L rs st @ minted_ids k L rs' (run L rs st)"
  by (simp add: minted_ids_def replies_append map_filter_def)

section \<open>Identifiers\<close>

text \<open>
  Claim C8. After any sequence of requests from the initial state, and for each kind: the
  keys of the table are distinct; the ids reported by the successful creates, in the order
  of the requests, are strictly increasing; every key of the table is one of them; and the
  id that a further successful create reports is greater than every id reported before and
  than every key of the table. An id freed by a delete is therefore never given again.
\<close>

theorem ids_never_reused:
  "distinct (table_keys k (run L rs init)) \<and>
   sorted_wrt (<) (minted_ids k L rs init) \<and>
   set (table_keys k (run L rs init)) \<subseteq> set (minted_ids k L rs init) \<and>
   (\<forall>i. minted k (fst (handle L r (run L rs init))) = Some i \<longrightarrow>
      (\<forall>j \<in> set (minted_ids k L rs init). j < i) \<and>
      (\<forall>j \<in> set (table_keys k (run L rs init)). j < i))"
proof -
  let ?st = "run L rs init"
  have inv: "state_ok ?st" "ids_bounded ?st"
    using run_invariants [of init L rs] by (simp_all add: init_invariants)
  have keys: "set (table_keys k ?st) \<subseteq> set (minted_ids k L rs init)"
    using run_keys [of k L rs init] by (cases k) (auto simp: init_def)
  have upto: "\<forall>j \<in> set (minted_ids k L rs init). j \<le> counter k ?st"
    using minted_ids_increasing [of k L rs init] by simp
  have next_id: "\<forall>i. minted k (fst (handle L r ?st)) = Some i \<longrightarrow> i = counter k ?st + 1"
    using handle_minted [of L r ?st "fst (handle L r ?st)" "snd (handle L r ?st)" k] by simp
  show ?thesis
    using state_ok_keys [OF inv(1), of k] minted_ids_increasing [of k L rs init] keys upto
      next_id ids_bounded_keys [OF inv(2), of _ k]
    by fastforce
qed

theorem ids_never_reused_witness:
  "minted_ids KUser demo_lib (demo_requests @ [DeleteUser 2]) init = [1, 2] \<and>
   table_keys KUser (run demo_lib (demo_requests @ [DeleteUser 2]) init) = [1] \<and>
   minted KUser
     (fst (handle demo_lib (CreateUser (Some (JObj [(''name'', JStr ''cy'')])))
        (run demo_lib (demo_requests @ [DeleteUser 2]) init))) = Some 3"
proof -
  have st: "run demo_lib (demo_requests @ [DeleteUser 2]) init =
              demo_state\<lparr>records := [(1, demo_record 1 1 1 5), (3, demo_record 3 1 2 900)],
                         users := [(1, \<lparr>user_ident = 1, user_name = ''ann''\<rparr>)]\<rparr>"
    by (simp add: run_append demo_run demo_delete_user)
  have ids: "minted_ids KUser demo_lib (demo_requests @ [DeleteUser 2]) init = [1, 2]"
    by (simp add: minted_ids_append demo_minted demo_run)
       (simp add: minted_ids_def demo_delete_user)
  have new: "minted KUser
     (fst (handle demo_lib (CreateUser (Some (JObj [(''name'', JStr ''cy'')])))
        (run demo_lib (demo_requests @ [DeleteUser 2]) init))) = Some 3"
    unfolding st by (simp add: create_user_def data_get_def demo_state_def Let_def)
  show ?thesis
    using ids_never_reused [of KUser demo_lib "demo_requests @ [DeleteUser 2]"
        "CreateUser (Some (JObj [(''name'', JStr ''cy'')]))"] ids new
    by (simp add: st)
qed

section \<open>Category names\<close>

text \<open>
  Claim C3. No two categories of the table have names that are equal after lowercasing:
  this holds in the initial state, every request preserves it, so it holds after every
  sequence of requests; and in every state reached from the initial one,
  \<open>create_category\<close> with a name whose lowercasing equals that of an existing
  category's name answers 409 and returns the state as it was. The one fact used of
  \<^verbatim>\<open>str.lower\<close> is that only the empty string lowercases to what the empty string does.
\<close>

theorem category_names_unique:
  assumes lower: "\<And>x. str_lower L x = str_lower L [] \<Longrightarrow> x = []"
  shows "names_unique L init \<and>
         (names_unique L st \<longrightarrow> names_unique L (snd (handle L r st))) \<and>
         names_unique L (run L rs init) \<and>
         (list_ex (\<lambda>c. str_lower L (category_name c) = str_lower L s)
            (dict_values (categories (run L rs init))) \<longrightarrow>
          get_json_or_empty L body = Inr data \<longrightarrow> data_get data ''name'' = JStr s \<longrightarrow>
          create_category L body (run L rs init) =
            ((Error CategoryExists, 409), run L rs init))"
proof (intro conjI impI)
  show "names_unique L init"
    by (rule init_invariants)
next
  assume "names_unique L st"
  then show "names_unique L (snd (handle L r st))"
    using handle_names_unique [of L r st "fst (handle L r st)" "snd (handle L r st)"] by simp
next
  show "names_unique L (run L rs init)"
    using run_invariants [of init L rs] by (simp add: init_invariants)
next
  let ?st = "run L rs init"
  assume ex: "list_ex (\<lambda>c. str_lower L (category_name c) = str_lower L s)
                (dict_values (categories ?st))"
    and body: "get_json_or_empty L body = Inr data" and name: "data_get data ''name'' = JStr s"
  have nonempty: "names_nonempty ?st"
    using run_invariants [of init L rs] by (simp add: init_invariants)
  from ex obtain p where p: "p \<in> set (categories ?st)"
      "str_lower L (category_name (snd p)) = str_lower L s"
    by (auto simp: list_ex_iff dict_values_def)
  from nonempty p(1) have c: "category_name (snd p) \<noteq> []"
    by (auto simp: names_nonempty_def list_all_iff)
  have "s \<noteq> []"
  proof
    assume "s = []"
    with p(2) have "category_name (snd p) = []" by (simp add: lower)
    with c show False by simp
  qed
  with ex body name show "create_category L body ?st = ((Error CategoryExists, 409), ?st)"
    by (simp add: create_category_def error_def)
qed

theorem category_names_unique_witness:
  "names_unique demo_lib demo_state \<and>
   create_category demo_lib (Some (JObj [(''name'', JStr ''FOOD'')])) demo_state =
     ((Error CategoryExists, 409), demo_state)"
proof -
  have low: "\<And>x. str_lower demo_lib x = str_lower demo_lib [] \<Longrightarrow> x = []"
    by (simp add: demo_lib_def ascii_lower_def)
  have ex: "list_ex (\<lambda>c. str_lower demo_lib (category_name c) = str_lower demo_lib ''FOOD'')
              (dict_values (categories demo_state))"
    by (simp add: demo_state_def demo_lib_def ascii_lower_def dict_values_def)
  have body: "get_json_or_empty demo_lib (Some (JObj [(''name'', JStr ''FOOD'')])) =
                Inr [(''name'', JStr ''FOOD'')]"
    by simp
  have name: "data_get [(''name'', JStr ''FOOD'')] ''name'' = (JStr ''FOOD'' :: int json)"
    by (simp add: data_get_def)
  from category_names_unique [where L = demo_lib and rs = demo_requests and s = "''FOOD''"
      and body = "Some (JObj [(''name'', JStr ''FOOD'')])"
      and data = "[(''name'', JStr ''FOOD'')]" and st = demo_state and r = Health, OF low]
  show ?thesis
    unfolding demo_run using ex body name by blast
qed

section \<open>Creating users\<close>

lemma fresh_user_id:
  assumes "ids_bounded st"
  shows "\<not> dict_in (counter_user st + 1) (users st)"
proof
  assume "dict_in (counter_user st + 1) (users st)"
  then have "counter_user st + 1 \<in> set (table_keys KUser st)"
    by (simp add: dict_in_def)
  from ids_bounded_keys [OF assms this] show False by simp
qed

text \<open>
  Claim C4 as stated fails for the empty name: the guard \<^verbatim>\<open>not name\<close> rejects it with 400
  and nothing is stored.
\<close>

theorem create_user_empty_name_rejected:
  "create_user demo_lib (Some (JObj [(''name'', JStr '''')])) init = ((Error NameRequired, 400), init)"
  by (simp add: create_user_def data_get_def error_def)

text \<open>
  Claim C4, amended. For a body that is absent, falsy or a JSON object, \<open>create_user\<close>
  answers 400, leaving the state as it was, exactly when the \<open>name\<close> field is missing,
  not a string, or the empty string; for every non-empty string name it answers 201 with
  the user of id counter + 1 and that name, and stores it under that id. In every state
  reached from the initial one that id is not yet a key of the users table, so the new
  user is appended.
\<close>

theorem create_user_spec:
  assumes "get_json_or_empty L body = Inr data"
  shows "create_user L body st =
           (case data_get data ''name'' of
              JStr s \<Rightarrow>
                if s = [] then ((Error NameRequired, 400), st)
                else ((UserObj \<lparr>user_ident = counter_user st + 1, user_name = s\<rparr>, 201),
                      st\<lparr>counter_user := counter_user st + 1,
                         users := dict_set (counter_user st + 1)
                                    \<lparr>user_ident = counter_user st + 1, user_name = s\<rparr> (users st)\<rparr>)
            | _ \<Rightarrow> ((Error NameRequired, 400), st)) \<and>
         (st = run L rs init \<longrightarrow>
            \<not> dict_in (counter_user st + 1) (users st) \<and>
            dict_set (counter_user st + 1) u (users st) = users st @ [(counter_user st + 1, u)])"
proof (intro conjI impI)
  show "create_user L body st =
           (case data_get data ''name'' of
              JStr s \<Rightarrow>
                if s = [] then ((Error NameRequired, 400), st)
                else ((UserObj \<lparr>user_ident = counter_user st + 1, user_name = s\<rparr>, 201),
                      st\<lparr>counter_user := counter_user st + 1,
                         users := dict_set (counter_user st + 1)
                                    \<lparr>user_ident = counter_user st + 1, user_name = s\<rparr> (users st)\<rparr>)
            | _ \<Rightarrow> ((Error NameRequired, 400), st))"
    using assms
    by (cases "data_get data ''name''") (simp_all add: create_user_def error_def Let_def)
next
  assume "st = run L rs init"
  then have "ids_bounded st"
    using run_invariants [of init L rs] by (simp add: init_invariants)
  then show "\<not> dict_in (counter_user st + 1) (users st)"
    by (rule fresh_user_id)
  then show "dict_set (counter_user st + 1) u (users st) = users st @ [(counter_user st + 1, u)]"
    by (simp add: dict_in_def dict_set_fresh)
qed

theorem create_user_spec_witness:
  "get_json_or_empty demo_lib (Some (JObj [(''name'', JStr ''cy'')])) = Inr [(''name'', JStr ''cy'')] \<and>
   create_user demo_lib (Some (JObj [(''name'', JStr ''cy'')])) demo_state =
     ((UserObj \<lparr>user_ident = 3, user_name = ''cy''\<rparr>, 201),
      demo_state\<lparr>counter_user := 3,
                 users := users demo_state @ [(3, \<lparr>user_ident = 3, user_name = ''cy''\<rparr>)]\<rparr>) \<and>
   create_user demo_lib (Some (JObj [(''name'', JInt 7)])) demo_state =
     ((Error NameRequired, 400), demo_state) \<and>
   create_user demo_lib None demo_state = ((Error NameRequired, 400), demo_state)"
proof -
  have body: "get_json_or_empty demo_lib (Some (JObj [(''name'', JStr ''cy'')])) =
                Inr [(''name'', JStr ''cy'')]"
    by simp
  have c: "counter_user demo_state = 2"
    by (simp add: demo_state_def)
  from create_user_spec [OF body, of demo_state demo_requests
      "\<lparr>user_ident = 3, user_name = ''cy''\<rparr>"]
  have "create_user demo_lib (Some (JObj [(''name'', JStr ''cy'')])) demo_state =
     ((UserObj \<lparr>user_ident = 3, user_name = ''cy''\<rparr>, 201),
      demo_state\<lparr>counter_user := 3,
                 users := users demo_state @ [(3, \<lparr>user_ident = 3, user_name = ''cy''\<rparr>)]\<rparr>)"
    by (simp add: demo_run data_get_def c)
  moreover have "create_user demo_lib (Some (JObj [(''name'', JInt 7)])) demo_state =
     ((Error NameRequired, 400), demo_state)"
    by (simp add: create_user_def data_get_def error_def)
  moreover have "create_user demo_lib None demo_state = ((Error NameRequired, 400), demo_state)"
    by (simp add: create_user_def data_get_def error_def)
  ultimately show ?thesis
    using body by simp
qed

section \<open>The timestamp of a record\<close>

lemma dict_get_set: "dict_get (dict_set k v d) k = Some v"
  by (induction d) (auto simp: dict_get_def)

lemma length_zpad: "length (zpad w n) = w"
  by (induction w arbitrary: n) simp_all

lemma digit_val_char: "digit_val (digit_char n) = Some (n mod 10)"
proof -
  define k where "k = n mod 10"
  then have "k < 10" by simp
  then have "k = 0 \<or> k = 1 \<or> k = 2 \<or> k = 3 \<or> k = 4 \<or> k = 5 \<or> k = 6 \<or> k = 7 \<or>
             k = 8 \<or> k = 9"
    by arith
  then have "digit_val (''0123456789'' ! k) = Some k"
    unfolding digit_val_def by (elim disjE) simp_all
  then show ?thesis
    by (simp add: digit_char_def k_def)
qed

lemma parse_digits_append:
  "parse_digits acc (xs @ [c]) =
     (case parse_digits acc xs of
        None \<Rightarrow> None
      | Some a \<Rightarrow> (case digit_val c of None \<Rightarrow> None | Some v \<Rightarrow> Some (10 * a + v)))"
  by (induction xs arbitrary: acc) (auto split: option.splits)

lemma parse_digits_zpad: "n < 10 ^ w \<Longrightarrow> parse_digits 0 (zpad w n) = Some n"
proof (induction w arbitrary: n)
  case 0
  then show ?case by simp
next
  case (Suc w)
  from Suc.prems have "n div 10 < 10 ^ w" by (simp add: less_mult_imp_div_less mult.commute)
  with Suc.IH have "parse_digits 0 (zpad w (n div 10)) = Some (n div 10)" by simp
  then show ?case
    by (simp add: parse_digits_append digit_val_char)
qed

lemma parse_fraction_zpad:
  "us < 1000000 \<Longrightarrow>
   parse_fraction (if us = 0 then ''Z'' else ''.'' @ zpad 6 us @ ''Z'') = Some us"
  using parse_digits_zpad [of us 6]
  by (simp add: parse_fraction_def length_zpad)

lemma isoformat_Z:
  "isoformat d @ ''Z'' =
     zpad 4 (year d) @ ''-'' @ zpad 2 (month d) @ ''-'' @ zpad 2 (day d) @ ''T'' @
     zpad 2 (hour d) @ '':'' @ zpad 2 (minute d) @ '':'' @ zpad 2 (second d) @
     (if microsecond d = 0 then ''Z'' else ''.'' @ zpad 6 (microsecond d) @ ''Z'')"
  by (simp add: isoformat_def)

lemma parse_isoformat:
  assumes "valid_datetime d"
  shows "parse_iso8601_utc (isoformat d @ ''Z'') = Some d"
proof -
  from assms have b: "year d < 10 ^ 4" "month d < 10 ^ 2" "day d < 10 ^ 2" "hour d < 10 ^ 2"
      "minute d < 10 ^ 2" "second d < 10 ^ 2" "microsecond d < 1000000"
    by (auto simp: valid_datetime_def days_in_month_def split: if_splits)
  note p = parse_digits_zpad [OF b(1)] parse_digits_zpad [OF b(2)] parse_digits_zpad [OF b(3)]
    parse_digits_zpad [OF b(4)] parse_digits_zpad [OF b(5)] parse_digits_zpad [OF b(6)]
    parse_fraction_zpad [OF b(7)]
  have eq: "\<lparr>year = year d, month = month d, day = day d, hour = hour d, minute = minute d,
              second = second d, microsecond = microsecond d\<rparr> = d"
    by simp
  have eq0: "microsecond d = 0 \<Longrightarrow>
             \<lparr>year = year d, month = month d, day = day d, hour = hour d, minute = minute d,
              second = second d, microsecond = 0\<rparr> = d"
    using eq by simp
  show ?thesis
    unfolding isoformat_Z parse_iso8601_utc_def
    using assms by (simp add: length_zpad nth_append p Let_def eq eq0)
qed

lemma py_float_number: "py_float L v = Inr a \<Longrightarrow> isinstance_number v"
  by (cases v) simp_all

lemma demo_iso: "isoformat demo_now = ''2025-10-13T10:00:07.000250''"
  by code_simp

lemma demo_now_valid: "valid_datetime demo_now"
  by (simp add: valid_datetime_def demo_now_def days_in_month_def)

text \<open>
  Claim C6. Let the body name an existing user and an existing category and give an amount
  that converts to a float. With a \<open>created_at\<close> string that the parser accepts,
  \<open>create_record\<close> answers 201 with a record whose \<open>created_at\<close> is that same string,
  stores it, and \<open>get_record\<close> of the new id returns it unchanged. With \<open>created_at\<close>
  omitted, the stored \<open>created_at\<close> is the ISO format of the clock reading followed by
  \<^verbatim>\<open>Z\<close>: it ends with \<^verbatim>\<open>Z\<close>, and reading it back as an ISO-8601 UTC timestamp gives the
  clock reading.
\<close>

theorem created_at_round_trip:
  assumes "get_json_or_empty L body = Inr data"
    and "isinstance_int (data_get data ''user_id'') = Some u"
    and "dict_in (int_of u) (users st)"
    and "isinstance_int (data_get data ''category_id'') = Some c"
    and "dict_in (int_of c) (categories st)"
    and "py_float L (data_get data ''amount'') = Inr a"
  shows "(data_get data ''created_at'' = JStr s \<and> fromisoformat_ok L (replace_Z s) \<longrightarrow>
            create_record L now body st =
              ((RecordObj \<lparr>rec_ident = counter_record st + 1, rec_user_id = u,
                           rec_category_id = c, rec_created_at = s, rec_amount = a\<rparr>, 201),
               st\<lparr>counter_record := counter_record st + 1,
                  records := dict_set (counter_record st + 1)
                    \<lparr>rec_ident = counter_record st + 1, rec_user_id = u, rec_category_id = c,
                     rec_created_at = s, rec_amount = a\<rparr> (records st)\<rparr>) \<and>
            get_record (counter_record st + 1) (snd (create_record L now body st)) =
              (RecordObj \<lparr>rec_ident = counter_record st + 1, rec_user_id = u,
                          rec_category_id = c, rec_created_at = s, rec_amount = a\<rparr>, 200)) \<and>
         (data_get data ''created_at'' = JNull \<and> valid_datetime now \<longrightarrow>
            create_record L now body st =
              ((RecordObj \<lparr>rec_ident = counter_record st + 1, rec_user_id = u,
                           rec_category_id = c, rec_created_at = isoformat now @ ''Z'',
                           rec_amount = a\<rparr>, 201),
               st\<lparr>counter_record := counter_record st + 1,
                  records := dict_set (counter_record st + 1)
                    \<lparr>rec_ident = counter_record st + 1, rec_user_id = u, rec_category_id = c,
                     rec_created_at = isoformat now @ ''Z'', rec_amount = a\<rparr> (records st)\<rparr>) \<and>
            get_record (counter_record st + 1) (snd (create_record L now body st)) =
              (RecordObj \<lparr>rec_ident = counter_record st + 1, rec_user_id = u,
                          rec_category_id = c, rec_created_at = isoformat now @ ''Z'',
                          rec_amount = a\<rparr>, 200) \<and>
            last (isoformat now @ ''Z'') = CHR ''Z'' \<and>
            parse_iso8601_utc (isoformat now @ ''Z'') = Some now)"
proof -
  note num = py_float_number [OF assms(6)]
  have given: "data_get data ''created_at'' = JStr s \<Longrightarrow> fromisoformat_ok L (replace_Z s) \<Longrightarrow>
    create_record L now body st =
      ((RecordObj \<lparr>rec_ident = counter_record st + 1, rec_user_id = u,
                   rec_category_id = c, rec_created_at = s, rec_amount = a\<rparr>, 201),
       st\<lparr>counter_record := counter_record st + 1,
          records := dict_set (counter_record st + 1)
            \<lparr>rec_ident = counter_record st + 1, rec_user_id = u, rec_category_id = c,
             rec_created_at = s, rec_amount = a\<rparr> (records st)\<rparr>)"
    using assms num by (simp add: create_record_def Let_def)
  have omitted: "data_get data ''created_at'' = JNull \<Longrightarrow>
    create_record L now body st =
      ((RecordObj \<lparr>rec_ident = counter_record st + 1, rec_user_id = u,
                   rec_category_id = c, rec_created_at = isoformat now @ ''Z'',
                   rec_amount = a\<rparr>, 201),
       st\<lparr>counter_record := counter_record st + 1,
          records := dict_set (counter_record st + 1)
            \<lparr>rec_ident = counter_record st + 1, rec_user_id = u, rec_category_id = c,
             rec_created_at = isoformat now @ ''Z'', rec_amount = a\<rparr> (records st)\<rparr>)"
    using assms num by (simp add: create_record_def Let_def)
  show ?thesis
    using given omitted
    by (auto simp: get_record_def dict_get_set parse_isoformat)
qed

theorem created_at_round_trip_witness:
  "create_record demo_lib demo_now
     (Some (JObj [(''user_id'', JInt 1), (''category_id'', JInt 2), (''amount'', JInt 12),
                  (''created_at'', JStr ''2025-10-13T10:00:00Z'')])) demo_state =
     ((RecordObj (demo_record 4 1 2 12), 201),
      demo_state\<lparr>counter_record := 4,
                 records := records demo_state @ [(4, demo_record 4 1 2 12)]\<rparr>) \<and>
   fst (create_record demo_lib demo_now
     (Some (JObj [(''user_id'', JInt 1), (''category_id'', JInt 2), (''amount'', JInt 12)]))
     demo_state) =
     (RecordObj \<lparr>rec_ident = 4, rec_user_id = PInt 1, rec_category_id = PInt 2,
                 rec_created_at = ''2025-10-13T10:00:07.000250Z'', rec_amount = 12\<rparr>, 201) \<and>
   parse_iso8601_utc ''2025-10-13T10:00:07.000250Z'' = Some demo_now"
proof -
  let ?given = "[(''user_id'', JInt 1), (''category_id'', JInt 2), (''amount'', JInt 12),
                 (''created_at'', JStr ''2025-10-13T10:00:00Z'')] :: (string \<times> int json) list"
  let ?omitted = "[(''user_id'', JInt 1), (''category_id'', JInt 2), (''amount'', JInt 12)]
                  :: (string \<times> int json) list"
  have st: "dict_in (int_of (PInt 1)) (users demo_state)"
      "dict_in (int_of (PInt 2)) (categories demo_state)" "counter_record demo_state = 3"
      "dict_set 4 v (records demo_state) = records demo_state @ [(4, v)]" for v
    by (simp_all add: demo_state_def dict_in_def)
  have one: "create_record demo_lib demo_now (Some (JObj ?given)) demo_state =
     ((RecordObj (demo_record 4 1 2 12), 201),
      demo_state\<lparr>counter_record := 4,
                 records := records demo_state @ [(4, demo_record 4 1 2 12)]\<rparr>)"
    using created_at_round_trip [where L = demo_lib and body = "Some (JObj ?given)"
        and data = ?given and u = "PInt 1" and c = "PInt 2" and st = demo_state and a = 12
        and s = "''2025-10-13T10:00:00Z''" and now = demo_now] st
    by (simp add: data_get_def demo_lib_def replace_Z_def demo_record_def)
  have two: "fst (create_record demo_lib demo_now (Some (JObj ?omitted)) demo_state) =
     (RecordObj \<lparr>rec_ident = 4, rec_user_id = PInt 1, rec_category_id = PInt 2,
                 rec_created_at = ''2025-10-13T10:00:07.000250Z'', rec_amount = 12\<rparr>, 201) \<and>
     parse_iso8601_utc ''2025-10-13T10:00:07.000250Z'' = Some demo_now"
    using created_at_round_trip [where L = demo_lib and body = "Some (JObj ?omitted)"
        and data = ?omitted and u = "PInt 1" and c = "PInt 2" and st = demo_state and a = 12
        and now = demo_now] st demo_now_valid
    by (simp add: data_get_def demo_lib_def demo_iso)
  from one two show ?thesis by simp
qed

end
